theory Spec2Isabelle
  imports Complex_Main
begin

section \<open>Stock physics engine: data model\<close>

text \<open>
  The engine of \<^verbatim>\<open>stock_physics.py\<close> works on a pandas DataFrame, one row per
  stock.  A row is a record with the columns written by \<^verbatim>\<open>fetch_market_snapshot\<close>
  and the columns added by \<^verbatim>\<open>calculate_bubble_properties\<close> and
  \<^verbatim>\<open>initialize_positions\<close>; a DataFrame is the list of its rows, in row order.
  Python floats are modelled as mathematical reals: rounding, infinities and NaN are
  outside this model, and every equation below is one of exact arithmetic.
  A numeric column is a float64 or an int64 column; the record holds the values of
  either as reals, and where the code computes in int64 the wrap-around at \<open>2 ^ 63\<close>
  is written out (see \<open>series_sub\<close>).
  The columns \<^verbatim>\<open>size\<close>, \<^verbatim>\<open>x\<close> and \<^verbatim>\<open>y\<close> are named
  \<open>size_px\<close>, \<open>xpos\<close> and \<open>ypos\<close>.
\<close>

record stock =
  ticker :: string
  price :: real
  change_pct :: real
  week_change :: real
  month_change :: real
  volume :: real
  market_cap :: real
  operating_margin :: real
  revenue_growth :: real
  rule_of_40 :: real
  pe_ratio :: real
  beta :: real
  volatility :: real
  debt_to_equity :: real
  sector :: string
  color :: string
  size_px :: real
  glow :: real
  opacity :: real
  pulse_speed :: real
  elasticity :: real
  vx :: real
  vy :: real
  xpos :: real
  ypos :: real

type_synonym dataframe = "stock list"

datatype py_error = ValueError

section \<open>Property functions\<close>

text \<open>\<^verbatim>\<open>normalize(value, min_val, max_val, target_min, target_max)\<close>.\<close>

definition normalize_range :: "real \<Rightarrow> real \<Rightarrow> real \<Rightarrow> real \<Rightarrow> real \<Rightarrow> real" where
  "normalize_range v min_val max_val target_min target_max =
     (if max_val = min_val then target_min
      else let normalized = (v - min_val) / (max_val - min_val)
           in target_min + normalized * (target_max - target_min))"

text \<open>\<^verbatim>\<open>get_glow_intensity(rule_of_40)\<close>.\<close>

definition get_glow_intensity :: "real \<Rightarrow> real" where
  "get_glow_intensity r =
     (if r \<ge> 80 then 1.0
      else if r \<ge> 40 then 0.5 + (r - 40) / 80
      else if r \<ge> 0 then 0.2 + (r / 40) * 0.3
      else 0.1)"

text \<open>\<^verbatim>\<open>get_opacity(debt_to_equity)\<close>.\<close>

definition get_opacity :: "real \<Rightarrow> real" where
  "get_opacity d =
     (if d \<le> 0 then 1.0
      else if d \<le> 50 then 1.0
      else if d \<le> 150 then 0.9 - (d - 50) / 100 * 0.3
      else max 0.4 (0.6 - (d - 150) / 200 * 0.2))"

text \<open>\<^verbatim>\<open>get_elasticity(volatility)\<close>.\<close>

definition get_elasticity :: "real \<Rightarrow> real" where
  "get_elasticity v =
     (if v \<le> 0 then 0.5 else min 1.0 (0.3 + v / 100))"

text \<open>
  Python's \<^verbatim>\<open>math.log10\<close> raises \<^verbatim>\<open>ValueError\<close> (math domain error) on
  a non-positive argument; the builtins \<^verbatim>\<open>min\<close> and \<^verbatim>\<open>max\<close> raise
  \<^verbatim>\<open>ValueError\<close> on an empty list.
\<close>

definition bind_err :: "py_error + 'a \<Rightarrow> ('a \<Rightarrow> py_error + 'b) \<Rightarrow> py_error + 'b" where
  "bind_err r f = (case r of Inl e \<Rightarrow> Inl e | Inr v \<Rightarrow> f v)"

definition math_log10 :: "real \<Rightarrow> py_error + real" where
  "math_log10 v = (if v \<le> 0 then Inl ValueError else Inr (log 10 v))"

fun py_min :: "real list \<Rightarrow> py_error + real" where
  "py_min [] = Inl ValueError"
| "py_min (v # vs) = Inr (fold min vs v)"

fun py_max :: "real list \<Rightarrow> py_error + real" where
  "py_max [] = Inl ValueError"
| "py_max (v # vs) = Inr (fold max vs v)"

text \<open>\<^verbatim>\<open>get_bubble_size(market_cap, all_market_caps)\<close>; the statements run in the
  source's order, so the first failing one decides the result.\<close>

definition get_bubble_size :: "real \<Rightarrow> real list \<Rightarrow> py_error + real" where
  "get_bubble_size cap all_market_caps =
     (if cap \<le> 0 then Inr 5
      else
        bind_err (math_log10 (cap + 1)) (\<lambda>log_cap.
        bind_err (if all_market_caps \<noteq> []
                  then bind_err (py_min all_market_caps) (\<lambda>m. math_log10 (m + 1))
                  else Inr log_cap) (\<lambda>min_log.
        bind_err (if all_market_caps \<noteq> []
                  then bind_err (py_max all_market_caps) (\<lambda>m. math_log10 (m + 1))
                  else Inr log_cap) (\<lambda>max_log.
        Inr (normalize_range log_cap min_log max_log 10 60)))))"

text \<open>\<^verbatim>\<open>get_pulse_speed(volume, all_volumes)\<close>.\<close>

definition get_pulse_speed :: "real \<Rightarrow> real list \<Rightarrow> py_error + real" where
  "get_pulse_speed vol all_volumes =
     (if all_volumes = [] \<or> vol \<le> 0 then Inr 1.0
      else
        bind_err (py_min all_volumes) (\<lambda>lo.
        bind_err (py_max all_volumes) (\<lambda>hi.
        Inr (normalize_range vol lo hi 0.5 3.0))))"

text \<open>\<^verbatim>\<open>Series.apply(f)\<close>: \<open>f\<close> on every value in row order; the first exception
  ends the call.\<close>

fun apply_series :: "(real \<Rightarrow> py_error + real) \<Rightarrow> real list \<Rightarrow> py_error + real list" where
  "apply_series f [] = Inr []"
| "apply_series f (v # vs) =
     bind_err (f v) (\<lambda>r. bind_err (apply_series f vs) (\<lambda>rs. Inr (r # rs)))"

text \<open>
  The two collection-relative columns of \<^verbatim>\<open>calculate_bubble_properties\<close>:
  \<^verbatim>\<open>df['size'] = df['market_cap'].apply(lambda x: get_bubble_size(x, all_caps))\<close> and
  \<^verbatim>\<open>df['pulse_speed'] = df['volume'].apply(lambda x: get_pulse_speed(x, all_volumes))\<close>.
\<close>

definition size_column :: "dataframe \<Rightarrow> py_error + real list" where
  "size_column df =
     (let all_caps = map market_cap df
      in apply_series (\<lambda>c. get_bubble_size c all_caps) all_caps)"

definition pulse_speed_column :: "dataframe \<Rightarrow> py_error + real list" where
  "pulse_speed_column df =
     (let all_volumes = map volume df
      in apply_series (\<lambda>v. get_pulse_speed v all_volumes) all_volumes)"

section \<open>Attraction\<close>

text \<open>
  \<^verbatim>\<open>Series.min()\<close> and \<^verbatim>\<open>Series.max()\<close>.  On an empty Series pandas returns NaN;
  every later operation of \<^verbatim>\<open>apply_attraction\<close> is elementwise over the same empty
  Series, so that value is never read, and the model puts 0 there.
\<close>

fun series_min :: "real list \<Rightarrow> real" where
  "series_min [] = 0"
| "series_min (w # ws) = fold min ws w"

fun series_max :: "real list \<Rightarrow> real" where
  "series_max [] = 0"
| "series_max (w # ws) = fold max ws w"

text \<open>The mode dispatch of \<^verbatim>\<open>apply_attraction\<close>: the column that gives the weights,
  \<open>None\<close> on the final \<^verbatim>\<open>else: return df\<close>.\<close>

definition select_weights :: "string \<Rightarrow> (stock \<Rightarrow> real) option" where
  "select_weights mode =
     (if mode = ''value'' then Some rule_of_40
      else if mode = ''growth'' then Some revenue_growth
      else if mode = ''profit'' then Some operating_margin
      else if mode = ''size'' then Some market_cap
      else None)"

text \<open>
  The metric column that gives the weights is a float64 column or an int64 column:
  market caps are stored as the provider's integers, and a column of whole numbers is
  int64 when the DataFrame is built from them or read back from JSON.  pandas keeps
  the dtype with the column; here it is given to \<open>apply_attraction\<close> beside the
  rows.  On an int64 column the subtractions \<^verbatim>\<open>weights - weights.min()\<close> and
  \<^verbatim>\<open>weights.max() - weights.min()\<close> are int64 operations: the result is the value
  in \<open>[- 2 ^ 63, 2 ^ 63)\<close> congruent to the difference modulo \<open>2 ^ 64\<close>.  The sum
  with 0.001 and the division are float operations on either dtype; the conversion of
  an int64 value to a float is taken as exact, like every float operation here.
\<close>

datatype dtype = Int64 | Float64

definition int64_wrap :: "real \<Rightarrow> real" where
  "int64_wrap v = v - 2 ^ 64 * of_int \<lfloor>(v + 2 ^ 63) / 2 ^ 64\<rfloor>"

definition series_sub :: "dtype \<Rightarrow> real \<Rightarrow> real \<Rightarrow> real" where
  "series_sub dt a b = (case dt of Int64 \<Rightarrow> int64_wrap (a - b) | Float64 \<Rightarrow> a - b)"

text \<open>\<^verbatim>\<open>(weights - weights.min()) / (weights.max() - weights.min() + 0.001)\<close>.\<close>

definition weight_denominator :: "dtype \<Rightarrow> real list \<Rightarrow> real" where
  "weight_denominator dt ws = series_sub dt (series_max ws) (series_min ws) + 0.001"

definition normalize_weights :: "dtype \<Rightarrow> real list \<Rightarrow> real list" where
  "normalize_weights dt ws =
     map (\<lambda>w. series_sub dt w (series_min ws) / weight_denominator dt ws) ws"

text \<open>\<^verbatim>\<open>high_value_mask = weights > 0.7\<close>, and selection of a column by a mask.\<close>

definition high_value_mask :: "real list \<Rightarrow> bool list" where
  "high_value_mask ws = map (\<lambda>w. w > 0.7) ws"

definition select_mask :: "'a list \<Rightarrow> bool list \<Rightarrow> 'a list" where
  "select_mask vs msk = map fst (filter snd (zip vs msk))"

text \<open>\<^verbatim>\<open>(df.loc[mask, col] * weights[mask]).sum() / weights[mask].sum()\<close>.\<close>

definition center_of :: "real list \<Rightarrow> real list \<Rightarrow> bool list \<Rightarrow> real" where
  "center_of pos ws msk =
     sum_list (map2 (*) (select_mask pos msk) (select_mask ws msk))
       / sum_list (select_mask ws msk)"

text \<open>\<^verbatim>\<open>apply_attraction(df, mode, strength)\<close>; \<open>dt\<close> is the dtype of the metric
  column that the mode selects.\<close>

definition apply_attraction :: "dtype \<Rightarrow> dataframe \<Rightarrow> string \<Rightarrow> real \<Rightarrow> dataframe" where
  "apply_attraction dt df mode strength =
     (case select_weights mode of
        None \<Rightarrow> df
      | Some col \<Rightarrow>
          let weights = normalize_weights dt (map col df);
              msk = high_value_mask weights
          in if length (filter id msk) > 0
             then
               let center_x = center_of (map xpos df) weights msk;
                   center_y = center_of (map ypos df) weights msk
               in map2 (\<lambda>s w. s\<lparr>vx := vx s + (center_x - xpos s) * strength * (1 - w),
                                  vy := vy s + (center_y - ypos s) * strength * (1 - w)\<rparr>)
                       df weights
             else df)"

section \<open>Integration\<close>

text \<open>
  A statement \<^verbatim>\<open>df.loc[cond, col] = ...\<close> changes the rows where the condition holds
  now, and leaves the others.
\<close>

definition loc_update :: "(stock \<Rightarrow> bool) \<Rightarrow> (stock \<Rightarrow> stock) \<Rightarrow> dataframe \<Rightarrow> dataframe" where
  "loc_update cond f df = map (\<lambda>s. if cond s then f s else s) df"

text \<open>\<^verbatim>\<open>update_positions(df, time_delta, bounds)\<close>, statement by statement.\<close>

definition update_positions ::
  "dataframe \<Rightarrow> real \<Rightarrow> real \<times> real \<times> real \<times> real \<Rightarrow> dataframe" where
  "update_positions df time_delta bounds =
     (case bounds of (x_min, x_max, y_min, y_max) \<Rightarrow>
        let df1 = map (\<lambda>s. s\<lparr>xpos := xpos s + vx s * time_delta\<rparr>) df;
            df2 = map (\<lambda>s. s\<lparr>ypos := ypos s + vy s * time_delta\<rparr>) df1;
            df3 = loc_update (\<lambda>s. xpos s < x_min) (\<lambda>s. s\<lparr>vx := vx s * (- elasticity s)\<rparr>) df2;
            df4 = loc_update (\<lambda>s. xpos s < x_min) (\<lambda>s. s\<lparr>xpos := x_min\<rparr>) df3;
            df5 = loc_update (\<lambda>s. xpos s > x_max) (\<lambda>s. s\<lparr>vx := vx s * (- elasticity s)\<rparr>) df4;
            df6 = loc_update (\<lambda>s. xpos s > x_max) (\<lambda>s. s\<lparr>xpos := x_max\<rparr>) df5;
            df7 = loc_update (\<lambda>s. ypos s < y_min) (\<lambda>s. s\<lparr>vy := vy s * (- elasticity s)\<rparr>) df6;
            df8 = loc_update (\<lambda>s. ypos s < y_min) (\<lambda>s. s\<lparr>ypos := y_min\<rparr>) df7;
            df9 = loc_update (\<lambda>s. ypos s > y_max) (\<lambda>s. s\<lparr>vy := vy s * (- elasticity s)\<rparr>) df8;
            df10 = loc_update (\<lambda>s. ypos s > y_max) (\<lambda>s. s\<lparr>ypos := y_max\<rparr>) df9;
            df11 = map (\<lambda>s. s\<lparr>vx := vx s * 0.98\<rparr>) df10;
            df12 = map (\<lambda>s. s\<lparr>vy := vy s * 0.98\<rparr>) df11
        in df12)"

text \<open>
  Every statement of \<^verbatim>\<open>update_positions\<close> acts on each row by itself, so one tick is
  one function of the row: \<open>tick_row\<close> is that function, and \<open>update_positions_rows\<close>
  below proves that the statement-by-statement model equals mapping it over the rows.
\<close>

definition tick_row :: "real \<Rightarrow> real \<times> real \<times> real \<times> real \<Rightarrow> stock \<Rightarrow> stock" where
  "tick_row time_delta bounds s =
     (case bounds of (x_min, x_max, y_min, y_max) \<Rightarrow>
        let x1 = xpos s + vx s * time_delta;
            y1 = ypos s + vy s * time_delta;
            vx1 = (if x1 < x_min then vx s * (- elasticity s) else vx s);
            x2 = (if x1 < x_min then x_min else x1);
            vx2 = (if x2 > x_max then vx1 * (- elasticity s) else vx1);
            x3 = (if x2 > x_max then x_max else x2);
            vy1 = (if y1 < y_min then vy s * (- elasticity s) else vy s);
            y2 = (if y1 < y_min then y_min else y1);
            vy2 = (if y2 > y_max then vy1 * (- elasticity s) else vy1);
            y3 = (if y2 > y_max then y_max else y2)
        in s\<lparr>xpos := x3, ypos := y3, vx := vx2 * 0.98, vy := vy2 * 0.98\<rparr>)"

text \<open>
  A row with its four kinematic columns replaced, each by a function of the original
  row.  The statements of \<^verbatim>\<open>update_positions\<close> touch no other column, so every
  intermediate DataFrame of a tick has this form.
\<close>

definition row_upd ::
  "(stock \<Rightarrow> real) \<Rightarrow> (stock \<Rightarrow> real) \<Rightarrow> (stock \<Rightarrow> real) \<Rightarrow> (stock \<Rightarrow> real) \<Rightarrow> stock \<Rightarrow> stock" where
  "row_upd X Y VX VY s = s\<lparr>xpos := X s, ypos := Y s, vx := VX s, vy := VY s\<rparr>"

section \<open>Sample rows\<close>

text \<open>
  A row for the concrete instances below: ticker, Rule-of-40 score, position, velocity
  and elasticity are given, the other columns are fixed.
\<close>

definition sample_stock ::
  "string \<Rightarrow> real \<Rightarrow> real \<Rightarrow> real \<Rightarrow> real \<Rightarrow> real \<Rightarrow> real \<Rightarrow> stock" where
  "sample_stock name r40 x y v_x v_y e =
     \<lparr>ticker = name, price = 0, change_pct = 0, week_change = 0, month_change = 0,
      volume = 0, market_cap = 0, operating_margin = 0, revenue_growth = 0,
      rule_of_40 = r40, pe_ratio = 0, beta = 1, volatility = 0, debt_to_equity = 0,
      sector = ''Unknown'', color = ''hsl(50, 50%, 60%)'', size_px = 10, glow = 0.2,
      opacity = 1, pulse_speed = 1, elasticity = e, vx = v_x, vy = v_y,
      xpos = x, ypos = y\<rparr>"

section \<open>The attraction, in the words of the specification\<close>

text \<open>
  For comparison with \<open>apply_attraction\<close>: the normalized weight of row \<open>i\<close> (min-max
  over the collection, with the epsilon 0.001 in the denominator), the attractor set
  (the rows whose normalized weight exceeds 0.7) and the weighted centroid of a
  coordinate over the attractor set only.
\<close>

definition spec_weight :: "(stock \<Rightarrow> real) \<Rightarrow> dataframe \<Rightarrow> nat \<Rightarrow> real" where
  "spec_weight col df i =
     (col (df ! i) - Min (col ` set df)) / (Max (col ` set df) - Min (col ` set df) + 0.001)"

definition attractor_set :: "(stock \<Rightarrow> real) \<Rightarrow> dataframe \<Rightarrow> nat set" where
  "attractor_set col df = {i \<in> {..<length df}. spec_weight col df i > 0.7}"

definition spec_centroid :: "(stock \<Rightarrow> real) \<Rightarrow> (stock \<Rightarrow> real) \<Rightarrow> dataframe \<Rightarrow> real" where
  "spec_centroid pos col df =
     (\<Sum>i \<in> attractor_set col df. spec_weight col df i * pos (df ! i))
       / (\<Sum>i \<in> attractor_set col df. spec_weight col df i)"

text \<open>
  The int64 subtractions of \<open>apply_attraction\<close> do not wrap around: the column is a
  float column, or its largest and smallest value differ by less than \<open>2 ^ 63\<close>.
\<close>

definition no_wrap :: "dtype \<Rightarrow> real list \<Rightarrow> bool" where
  "no_wrap dt ws = (dt = Float64 \<or> series_max ws - series_min ws < 2 ^ 63)"

definition sample_frame :: dataframe where
  "sample_frame =
     [sample_stock ''AAPL'' 65 20 30 1 1 0.55,
      sample_stock ''TSLA'' 25 50 60 (- 2) 0 0.95,
      sample_stock ''NVDA'' 90 80 40 3 2 0.7]"

text \<open>Three rows whose market caps, as an int64 column, are \<open>- 2 ^ 62\<close>, \<open>2 ^ 62\<close>
  and \<open>2 ^ 61\<close>, at \<open>x = 0, 10, 20\<close> and at rest.\<close>

definition wrap_frame :: dataframe where
  "wrap_frame =
     [(sample_stock ''AAPL'' 65 0 0 0 0 0.55)\<lparr>market_cap := - 4611686018427387904\<rparr>,
      (sample_stock ''TSLA'' 25 10 0 0 0 0.95)\<lparr>market_cap := 4611686018427387904\<rparr>,
      (sample_stock ''NVDA'' 90 20 0 0 0 0.7)\<lparr>market_cap := 2305843009213693952\<rparr>]"

lemma sample_stock_sel:
  "vx (sample_stock n r x y a b e) = a"
  "vy (sample_stock n r x y a b e) = b"
  "xpos (sample_stock n r x y a b e) = x"
  "ypos (sample_stock n r x y a b e) = y"
  "elasticity (sample_stock n r x y a b e) = e"
  "rule_of_40 (sample_stock n r x y a b e) = r"
  "ticker (sample_stock n r x y a b e) = n"
  by (simp_all add: sample_stock_def)

section \<open>Properties of the range mapping\<close>

text \<open>
  C9.  For all bounds and targets, \<open>normalize_range\<close> maps the lower source bound to the
  target minimum and, when the two source bounds differ, the upper source bound to the
  target maximum; when the two source bounds are equal it returns the target minimum
  for every value (the division is not executed on that branch).
\<close>

theorem normalize_endpoints:
  "normalize_range lo lo hi tmin tmax = tmin
   \<and> (lo \<noteq> hi \<longrightarrow> normalize_range hi lo hi tmin tmax = tmax)
   \<and> normalize_range v b b tmin tmax = tmin"
  by (simp add: normalize_range_def)

theorem normalize_endpoints_witness:
  "(2::real) \<noteq> 7
   \<and> normalize_range 2 2 7 10 60 = 10 \<and> normalize_range 7 2 7 10 60 = 60
   \<and> normalize_range 5 3 3 10 60 = 10"
  using normalize_endpoints [of 2 7 10 60 5 3] by simp


section \<open>Properties of glow and opacity\<close>

lemma glow_mono:
  "0 \<le> a \<Longrightarrow> a \<le> b \<Longrightarrow> get_glow_intensity a \<le> get_glow_intensity b"
  unfolding get_glow_intensity_def by (auto simp: field_simps)

text \<open>
  C8.  On scores at least 0 the glow intensity is monotonically non-decreasing, and
  it takes the values 0.2 at 0, 0.5 at 40, 1.0 at 80 and 0.1 at -1.
\<close>

theorem glow_monotone_and_points:
  "(0 \<le> a \<and> a \<le> b \<longrightarrow> get_glow_intensity a \<le> get_glow_intensity b)
   \<and> get_glow_intensity 0 = 0.2 \<and> get_glow_intensity 40 = 0.5
   \<and> get_glow_intensity 80 = 1.0 \<and> get_glow_intensity (-1) = 0.1"
  using glow_mono [of a b] by (simp add: get_glow_intensity_def)

theorem glow_monotone_and_points_witness:
  "(0::real) \<le> 25 \<and> (25::real) \<le> 65 \<and> get_glow_intensity 25 \<le> get_glow_intensity 65"
  using glow_monotone_and_points [of 25 65] by simp

text \<open>
  C3, as stated, gives the opacity at debt-to-equity 300 as the floor 0.4.  The last
  branch is \<open>max 0.4 (0.6 - (d - 150) / 200 * 0.2)\<close>, which at 300 is 0.45; the
  floor is reached from 350 on.
\<close>

theorem opacity_300_counterexample:
  "get_opacity 300 \<noteq> 0.4"
  by (simp add: get_opacity_def)

lemma opacity_floor: "350 \<le> d \<Longrightarrow> get_opacity d = 0.4"
  by (simp add: get_opacity_def max_def)

text \<open>
  C3, amended.  The opacity is 1.0 at 0 and at 50, 0.6 at 150, 0.45 at 300, and the
  floor 0.4 at 350 and at 1000.
\<close>

theorem opacity_points:
  "get_opacity 0 = 1.0 \<and> get_opacity 50 = 1.0 \<and> get_opacity 150 = 0.6
   \<and> get_opacity 300 = 0.45 \<and> get_opacity 350 = 0.4 \<and> get_opacity 1000 = 0.4"
  by (simp add: get_opacity_def)

section \<open>Properties of the integrator\<close>

lemma row_upd_id: "map (row_upd xpos ypos vx vy) df = df"
  by (simp add: row_upd_def map_idI)

lemma stage_move_x:
  "map (\<lambda>s. s\<lparr>xpos := xpos s + vx s * dt\<rparr>) (map (row_upd X Y VX VY) df)
     = map (row_upd (\<lambda>s. X s + VX s * dt) Y VX VY) df"
  by (simp add: row_upd_def)

lemma stage_move_y:
  "map (\<lambda>s. s\<lparr>ypos := ypos s + vy s * dt\<rparr>) (map (row_upd X Y VX VY) df)
     = map (row_upd X (\<lambda>s. Y s + VY s * dt) VX VY) df"
  by (simp add: row_upd_def)

lemma stage_bounce_vx:
  "loc_update (\<lambda>s. c (xpos s)) (\<lambda>s. s\<lparr>vx := vx s * (- elasticity s)\<rparr>) (map (row_upd X Y VX VY) df)
     = map (row_upd X Y (\<lambda>s. if c (X s) then VX s * (- elasticity s) else VX s) VY) df"
  by (simp add: row_upd_def loc_update_def)

lemma stage_clamp_x:
  "loc_update (\<lambda>s. c (xpos s)) (\<lambda>s. s\<lparr>xpos := m\<rparr>) (map (row_upd X Y VX VY) df)
     = map (row_upd (\<lambda>s. if c (X s) then m else X s) Y VX VY) df"
  by (simp add: row_upd_def loc_update_def)

lemma stage_bounce_vy:
  "loc_update (\<lambda>s. c (ypos s)) (\<lambda>s. s\<lparr>vy := vy s * (- elasticity s)\<rparr>) (map (row_upd X Y VX VY) df)
     = map (row_upd X Y VX (\<lambda>s. if c (Y s) then VY s * (- elasticity s) else VY s)) df"
  by (simp add: row_upd_def loc_update_def)

lemma stage_clamp_y:
  "loc_update (\<lambda>s. c (ypos s)) (\<lambda>s. s\<lparr>ypos := m\<rparr>) (map (row_upd X Y VX VY) df)
     = map (row_upd X (\<lambda>s. if c (Y s) then m else Y s) VX VY) df"
  by (simp add: row_upd_def loc_update_def)

lemma stage_damp_vx:
  "map (\<lambda>s. s\<lparr>vx := vx s * k\<rparr>) (map (row_upd X Y VX VY) df)
     = map (row_upd X Y (\<lambda>s. VX s * k) VY) df"
  by (simp add: row_upd_def)

lemma stage_damp_vy:
  "map (\<lambda>s. s\<lparr>vy := vy s * k\<rparr>) (map (row_upd X Y VX VY) df)
     = map (row_upd X Y VX (\<lambda>s. VY s * k)) df"
  by (simp add: row_upd_def)

text \<open>The twelve statements of one tick, fused into one pass over the rows.\<close>

lemma update_positions_rows:
  "update_positions df time_delta bounds = map (tick_row time_delta bounds) df"
proof (cases bounds)
  case (fields x_min x_max y_min y_max)
  have "update_positions (map (row_upd xpos ypos vx vy) df) time_delta (x_min, x_max, y_min, y_max)
          = map (tick_row time_delta (x_min, x_max, y_min, y_max)) df"
    unfolding update_positions_def Let_def prod.case
      stage_move_x stage_move_y
      stage_bounce_vx [where c = "\<lambda>v. v < x_min"] stage_clamp_x [where c = "\<lambda>v. v < x_min"]
      stage_bounce_vx [where c = "\<lambda>v. v > x_max"] stage_clamp_x [where c = "\<lambda>v. v > x_max"]
      stage_bounce_vy [where c = "\<lambda>v. v < y_min"] stage_clamp_y [where c = "\<lambda>v. v < y_min"]
      stage_bounce_vy [where c = "\<lambda>v. v > y_max"] stage_clamp_y [where c = "\<lambda>v. v > y_max"]
      stage_damp_vx stage_damp_vy
    by (rule map_cong [OF refl]) (simp add: row_upd_def tick_row_def Let_def)
  then show ?thesis
    by (simp only: row_upd_id fields)
qed

lemma tick_row_xpos:
  "xpos (tick_row dt (x_min, x_max, y_min, y_max) s) =
     (let x1 = xpos s + vx s * dt; x2 = (if x1 < x_min then x_min else x1)
      in if x2 > x_max then x_max else x2)"
  by (simp add: tick_row_def Let_def)

lemma tick_row_ypos:
  "ypos (tick_row dt (x_min, x_max, y_min, y_max) s) =
     (let y1 = ypos s + vy s * dt; y2 = (if y1 < y_min then y_min else y1)
      in if y2 > y_max then y_max else y2)"
  by (simp add: tick_row_def Let_def)

lemma tick_row_vx:
  "vx (tick_row dt (x_min, x_max, y_min, y_max) s) =
     (let x1 = xpos s + vx s * dt;
          vx1 = (if x1 < x_min then vx s * (- elasticity s) else vx s);
          x2 = (if x1 < x_min then x_min else x1);
          vx2 = (if x2 > x_max then vx1 * (- elasticity s) else vx1)
      in vx2 * 0.98)"
  by (simp add: tick_row_def Let_def)

lemma tick_row_vy:
  "vy (tick_row dt (x_min, x_max, y_min, y_max) s) =
     (let y1 = ypos s + vy s * dt;
          vy1 = (if y1 < y_min then vy s * (- elasticity s) else vy s);
          y2 = (if y1 < y_min then y_min else y1);
          vy2 = (if y2 > y_max then vy1 * (- elasticity s) else vy1)
      in vy2 * 0.98)"
  by (simp add: tick_row_def Let_def)

text \<open>
  C2.  For bounds with \<open>x_min < x_max\<close> and \<open>y_min < y_max\<close>, every row of the
  DataFrame returned by one tick has its position inside the bounds, whatever the
  positions, velocities and time step before the tick.
\<close>

theorem update_positions_within_bounds:
  assumes "x_min < x_max" and "y_min < y_max"
    and "s \<in> set (update_positions df time_delta (x_min, x_max, y_min, y_max))"
  shows "x_min \<le> xpos s \<and> xpos s \<le> x_max \<and> y_min \<le> ypos s \<and> ypos s \<le> y_max"
proof -
  from assms(3) obtain r where "s = tick_row time_delta (x_min, x_max, y_min, y_max) r"
    by (auto simp: update_positions_rows)
  with assms(1,2) show ?thesis
    by (simp add: tick_row_xpos tick_row_ypos Let_def)
qed

theorem update_positions_within_bounds_witness:
  "(5::real) < 95
   \<and> 5 \<le> xpos (hd (update_positions [sample_stock ''AAPL'' 65 150 (-40) 3 (-2) 0.5] 0.3 (5, 95, 5, 95)))
   \<and> xpos (hd (update_positions [sample_stock ''AAPL'' 65 150 (-40) 3 (-2) 0.5] 0.3 (5, 95, 5, 95))) \<le> 95
   \<and> 5 \<le> ypos (hd (update_positions [sample_stock ''AAPL'' 65 150 (-40) 3 (-2) 0.5] 0.3 (5, 95, 5, 95)))
   \<and> ypos (hd (update_positions [sample_stock ''AAPL'' 65 150 (-40) 3 (-2) 0.5] 0.3 (5, 95, 5, 95))) \<le> 95"
proof -
  have b: "(5::real) < 95" by simp
  have m: "hd (update_positions [sample_stock ''AAPL'' 65 150 (-40) 3 (-2) 0.5] 0.3 (5, 95, 5, 95))
             \<in> set (update_positions [sample_stock ''AAPL'' 65 150 (-40) 3 (-2) 0.5] 0.3 (5, 95, 5, 95))"
    by (simp add: update_positions_rows)
  show ?thesis
    using b update_positions_within_bounds [OF b b m] by simp
qed

text \<open>
  The elasticity column is written by \<^verbatim>\<open>get_elasticity\<close>, whose values lie in
  \<open>[0.3, 1]\<close>, so the bound on the elasticity assumed below holds of every row that
  \<^verbatim>\<open>calculate_bubble_properties\<close> produces.
\<close>

lemma get_elasticity_range: "0.3 \<le> get_elasticity v \<and> get_elasticity v \<le> 1"
  by (auto simp: get_elasticity_def min_def)

lemma abs_scaled_le:
  fixes v e :: real
  assumes "\<bar>e\<bar> \<le> 1"
  shows "\<bar>v * (- e) * (98 / 100)\<bar> \<le> \<bar>v\<bar>" and "\<bar>v * (98 / 100)\<bar> \<le> \<bar>v\<bar>"
    and "\<bar>v * (- e) * (- e) * (98 / 100)\<bar> \<le> \<bar>v\<bar>"
proof -
  have a: "\<bar>v\<bar> * \<bar>e\<bar> \<le> \<bar>v\<bar>"
    using assms mult_left_le by fastforce
  then have b: "\<bar>v\<bar> * \<bar>e\<bar> * \<bar>e\<bar> \<le> \<bar>v\<bar>"
    using assms by (smt (verit) mult_left_le abs_ge_zero mult_nonneg_nonneg)
  show "\<bar>v * (- e) * (98 / 100)\<bar> \<le> \<bar>v\<bar>" using a by (simp add: abs_mult)
  show "\<bar>v * (98 / 100)\<bar> \<le> \<bar>v\<bar>" by (simp add: abs_mult)
  show "\<bar>v * (- e) * (- e) * (98 / 100)\<bar> \<le> \<bar>v\<bar>" using b by (simp add: abs_mult)
qed

text \<open>
  C5, as stated, has the horizontal velocity after the tick equal to
  \<open>- vx * elasticity\<close>.  The damping statement runs after the bounce in the same
  tick, so a row at \<open>x_max = 100\<close> with velocity 1 and elasticity 1 leaves the tick
  with velocity \<open>- 0.98\<close>, not \<open>- 1\<close>.
\<close>

theorem bounce_at_x_max_counterexample:
  "vx (hd (update_positions [sample_stock ''AAPL'' 65 100 50 1 0 1] 0.1 (0, 100, 0, 100)))
     \<noteq> - vx (sample_stock ''AAPL'' 65 100 50 1 0 1) * elasticity (sample_stock ''AAPL'' 65 100 50 1 0 1)"
  by (simp add: update_positions_rows tick_row_vx sample_stock_sel)

text \<open>
  C5, amended.  For bounds with \<open>x_min < x_max\<close>, a row placed exactly at
  \<open>x_max\<close> with positive horizontal velocity is, after one tick with a positive time
  step, at \<open>x_max\<close> with horizontal velocity \<open>- vx * elasticity * 0.98\<close> (the bounce,
  then the damping of the same tick).  For every row whose elasticity has magnitude
  at most 1, the magnitude of each velocity component after the tick is at most its
  magnitude before, whether or not the component bounced.
\<close>

theorem bounce_at_x_max:
  assumes "i < length df"
  shows "(x_min < x_max \<and> xpos (df ! i) = x_max \<and> 0 < vx (df ! i) \<and> 0 < time_delta
            \<longrightarrow> xpos (update_positions df time_delta (x_min, x_max, y_min, y_max) ! i) = x_max
              \<and> vx (update_positions df time_delta (x_min, x_max, y_min, y_max) ! i)
                  = - vx (df ! i) * elasticity (df ! i) * 0.98)
         \<and> (\<bar>elasticity (df ! i)\<bar> \<le> 1
            \<longrightarrow> \<bar>vx (update_positions df time_delta (x_min, x_max, y_min, y_max) ! i)\<bar> \<le> \<bar>vx (df ! i)\<bar>
              \<and> \<bar>vy (update_positions df time_delta (x_min, x_max, y_min, y_max) ! i)\<bar> \<le> \<bar>vy (df ! i)\<bar>)"
proof -
  have row: "update_positions df time_delta (x_min, x_max, y_min, y_max) ! i
               = tick_row time_delta (x_min, x_max, y_min, y_max) (df ! i)"
    using assms by (simp add: update_positions_rows)
  have hit: "xpos (tick_row time_delta (x_min, x_max, y_min, y_max) (df ! i)) = x_max
             \<and> vx (tick_row time_delta (x_min, x_max, y_min, y_max) (df ! i))
                 = - vx (df ! i) * elasticity (df ! i) * 0.98"
    if "x_min < x_max" "xpos (df ! i) = x_max" "0 < vx (df ! i)" "0 < time_delta"
  proof -
    have "0 < vx (df ! i) * time_delta" using that by simp
    then have "x_max < xpos (df ! i) + vx (df ! i) * time_delta" using that by simp
    with that(1) show ?thesis
      by (simp add: tick_row_xpos tick_row_vx Let_def)
  qed
  have slow: "\<bar>vx (tick_row time_delta (x_min, x_max, y_min, y_max) (df ! i))\<bar> \<le> \<bar>vx (df ! i)\<bar>
              \<and> \<bar>vy (tick_row time_delta (x_min, x_max, y_min, y_max) (df ! i))\<bar> \<le> \<bar>vy (df ! i)\<bar>"
    if "\<bar>elasticity (df ! i)\<bar> \<le> 1"
    using abs_scaled_le [OF that]
    by (simp add: tick_row_vx tick_row_vy Let_def)
  show ?thesis
    unfolding row using hit slow by blast
qed

theorem bounce_at_x_max_witness:
  "(0::nat) < length [sample_stock ''TSLA'' 25 95 50 2 (-1) 0.95]
   \<and> (5::real) < 95 \<and> xpos ([sample_stock ''TSLA'' 25 95 50 2 (-1) 0.95] ! 0) = 95
   \<and> 0 < vx ([sample_stock ''TSLA'' 25 95 50 2 (-1) 0.95] ! 0) \<and> (0::real) < 0.3
   \<and> \<bar>elasticity ([sample_stock ''TSLA'' 25 95 50 2 (-1) 0.95] ! 0)\<bar> \<le> 1
   \<and> xpos (update_positions [sample_stock ''TSLA'' 25 95 50 2 (-1) 0.95] 0.3 (5, 95, 5, 95) ! 0) = 95
   \<and> vx (update_positions [sample_stock ''TSLA'' 25 95 50 2 (-1) 0.95] 0.3 (5, 95, 5, 95) ! 0)
        = - 2 * 0.95 * 0.98
   \<and> \<bar>vx (update_positions [sample_stock ''TSLA'' 25 95 50 2 (-1) 0.95] 0.3 (5, 95, 5, 95) ! 0)\<bar> \<le> 2
   \<and> \<bar>vy (update_positions [sample_stock ''TSLA'' 25 95 50 2 (-1) 0.95] 0.3 (5, 95, 5, 95) ! 0)\<bar> \<le> 1"
  using bounce_at_x_max [of 0 "[sample_stock ''TSLA'' 25 95 50 2 (-1) 0.95]" 5 95 "0.3" 5 95]
  by (simp add: sample_stock_sel)

text \<open>
  C6, as stated, holds for every collection.  The clamping statements run whatever
  the time step is, so a row that starts outside the bounds is moved: with bounds
  \<open>(0, 100, 0, 100)\<close> and time step 0 a row at \<open>x = 150\<close> ends at \<open>x = 100\<close>.
\<close>

theorem zero_time_delta_counterexample:
  "xpos (hd (update_positions [sample_stock ''NVDA'' 90 150 50 0 0 0.7] 0 (0, 100, 0, 100)))
     \<noteq> xpos (sample_stock ''NVDA'' 90 150 50 0 0 0.7)"
  by (simp add: update_positions_rows tick_row_xpos sample_stock_sel)

text \<open>
  C6, amended.  With time step 0, every row whose position is inside the bounds
  keeps its position, and each of its velocity components is multiplied by 0.98.
\<close>

theorem zero_time_delta_in_bounds:
  assumes "i < length df"
    and "x_min \<le> xpos (df ! i)" and "xpos (df ! i) \<le> x_max"
    and "y_min \<le> ypos (df ! i)" and "ypos (df ! i) \<le> y_max"
  shows "xpos (update_positions df 0 (x_min, x_max, y_min, y_max) ! i) = xpos (df ! i)
       \<and> ypos (update_positions df 0 (x_min, x_max, y_min, y_max) ! i) = ypos (df ! i)
       \<and> vx (update_positions df 0 (x_min, x_max, y_min, y_max) ! i) = vx (df ! i) * 0.98
       \<and> vy (update_positions df 0 (x_min, x_max, y_min, y_max) ! i) = vy (df ! i) * 0.98"
  using assms
  by (simp add: update_positions_rows tick_row_xpos tick_row_ypos tick_row_vx tick_row_vy)

theorem zero_time_delta_in_bounds_witness:
  "(0::nat) < length [sample_stock ''AAPL'' 65 40 95 2 (-1) 0.55]
   \<and> (5::real) \<le> xpos ([sample_stock ''AAPL'' 65 40 95 2 (-1) 0.55] ! 0)
   \<and> xpos ([sample_stock ''AAPL'' 65 40 95 2 (-1) 0.55] ! 0) \<le> 95
   \<and> (5::real) \<le> ypos ([sample_stock ''AAPL'' 65 40 95 2 (-1) 0.55] ! 0)
   \<and> ypos ([sample_stock ''AAPL'' 65 40 95 2 (-1) 0.55] ! 0) \<le> 95
   \<and> xpos (update_positions [sample_stock ''AAPL'' 65 40 95 2 (-1) 0.55] 0 (5, 95, 5, 95) ! 0) = 40
   \<and> ypos (update_positions [sample_stock ''AAPL'' 65 40 95 2 (-1) 0.55] 0 (5, 95, 5, 95) ! 0) = 95
   \<and> vx (update_positions [sample_stock ''AAPL'' 65 40 95 2 (-1) 0.55] 0 (5, 95, 5, 95) ! 0) = 2 * 0.98
   \<and> vy (update_positions [sample_stock ''AAPL'' 65 40 95 2 (-1) 0.55] 0 (5, 95, 5, 95) ! 0) = - 1 * 0.98"
  using zero_time_delta_in_bounds [of 0 "[sample_stock ''AAPL'' 65 40 95 2 (-1) 0.55]" 5 95 5 95]
  by (simp add: sample_stock_sel)

section \<open>Properties of the attraction\<close>

lemma map2_velocity_inv:
  assumes "\<And>s a b. g (s\<lparr>vx := a, vy := b\<rparr>) = g s" and "length ws = length df"
  shows "map g (map2 (\<lambda>s w. s\<lparr>vx := p s w, vy := q s w\<rparr>) df ws) = map g df"
  using assms(2)
proof (induction ws df rule: list_induct2)
  case Nil
  show ?case by simp
next
  case (Cons w ws s df)
  then show ?case by (simp add: assms(1))
qed

lemma apply_attraction_map_inv:
  assumes "\<And>s a b. g (s\<lparr>vx := a, vy := b\<rparr>) = g s"
  shows "map g (apply_attraction dt df mode strength) = map g df"
proof (cases "select_weights mode")
  case None
  then show ?thesis by (simp add: apply_attraction_def)
next
  case (Some col)
  have len: "length (normalize_weights dt (map col df)) = length df"
    by (simp add: normalize_weights_def)
  show ?thesis
    unfolding apply_attraction_def Some option.case Let_def
    by (simp only: if_distrib [of "map g"] map2_velocity_inv [OF assms len] if_cancel)
qed

text \<open>
  C10.  For every DataFrame, of either dtype of the metric column, every mode string
  and every strength, \<^verbatim>\<open>apply_attraction\<close> changes at most the columns \<open>vx\<close> and
  \<open>vy\<close>: with these two columns blanked, its result is the input, row by row and in
  the same order.  In particular the number of rows, the tickers and the positions
  are the input's.
\<close>

theorem apply_attraction_frame:
  "map (\<lambda>s. s\<lparr>vx := 0, vy := 0\<rparr>) (apply_attraction dt df mode strength)
     = map (\<lambda>s. s\<lparr>vx := 0, vy := 0\<rparr>) df
   \<and> length (apply_attraction dt df mode strength) = length df
   \<and> map ticker (apply_attraction dt df mode strength) = map ticker df
   \<and> map xpos (apply_attraction dt df mode strength) = map xpos df
   \<and> map ypos (apply_attraction dt df mode strength) = map ypos df"
proof -
  have a: "map (\<lambda>s. s\<lparr>vx := 0, vy := 0\<rparr>) (apply_attraction dt df mode strength)
     = map (\<lambda>s. s\<lparr>vx := 0, vy := 0\<rparr>) df"
    by (rule apply_attraction_map_inv) simp
  have b: "map ticker (apply_attraction dt df mode strength) = map ticker df"
    by (rule apply_attraction_map_inv) simp
  have c: "map xpos (apply_attraction dt df mode strength) = map xpos df"
    by (rule apply_attraction_map_inv) simp
  have d: "map ypos (apply_attraction dt df mode strength) = map ypos df"
    by (rule apply_attraction_map_inv) simp
  have e: "length (apply_attraction dt df mode strength) = length df"
    using b by (metis length_map)
  show ?thesis using a b c d e by simp
qed

text \<open>Minimum and maximum of a column, and the int64 subtraction where it is exact.\<close>

lemma series_min_Min: "ws \<noteq> [] \<Longrightarrow> series_min ws = Min (set ws)"
  by (cases ws) (simp_all add: Min.set_eq_fold [symmetric])

lemma series_max_Max: "ws \<noteq> [] \<Longrightarrow> series_max ws = Max (set ws)"
  by (cases ws) (simp_all add: Max.set_eq_fold [symmetric])

lemma series_bounds: "series_min ws \<le> series_max ws"
proof (cases ws)
  case Nil
  then show ?thesis by simp
next
  case (Cons w vs)
  then have ne: "ws \<noteq> []" and mem: "w \<in> set ws" by simp_all
  have "Min (set ws) \<le> w" using mem by simp
  moreover have "w \<le> Max (set ws)" using mem by simp
  ultimately show ?thesis
    unfolding series_min_Min [OF ne] series_max_Max [OF ne] by (rule order_trans)
qed

lemma series_min_le: "w \<in> set ws \<Longrightarrow> series_min ws \<le> w"
  using series_min_Min [of ws] by (cases "ws = []") simp_all

lemma series_max_ge: "w \<in> set ws \<Longrightarrow> w \<le> series_max ws"
  using series_max_Max [of ws] by (cases "ws = []") simp_all

lemma int64_wrap_id:
  assumes "- (2 ^ 63) \<le> v" and "v < 2 ^ 63"
  shows "int64_wrap v = v"
proof -
  have "0 \<le> (v + 2 ^ 63) / 2 ^ 64" using assms(1) by simp
  moreover have "(v + 2 ^ 63) / 2 ^ 64 < 1" using assms(2) by simp
  ultimately have "\<lfloor>(v + 2 ^ 63) / 2 ^ 64\<rfloor> = 0"
    by (simp add: floor_eq_iff)
  then show ?thesis by (simp add: int64_wrap_def)
qed

lemma series_sub_no_wrap:
  assumes "no_wrap dt ws" and "w \<in> set ws"
  shows "series_sub dt w (series_min ws) = w - series_min ws"
    and "series_sub dt (series_max ws) (series_min ws) = series_max ws - series_min ws"
proof -
  have lo: "0 \<le> w - series_min ws" using series_min_le [OF assms(2)] by simp
  have hi: "w - series_min ws \<le> series_max ws - series_min ws"
    using series_max_ge [OF assms(2)] by simp
  have r: "0 \<le> series_max ws - series_min ws" using lo hi by simp
  show "series_sub dt w (series_min ws) = w - series_min ws"
  proof (cases dt)
    case Int64
    with assms(1) have "series_max ws - series_min ws < 2 ^ 63" by (simp add: no_wrap_def)
    with lo hi have "int64_wrap (w - series_min ws) = w - series_min ws"
      by (intro int64_wrap_id) simp_all
    with Int64 show ?thesis by (simp add: series_sub_def)
  next
    case Float64
    then show ?thesis by (simp add: series_sub_def)
  qed
  show "series_sub dt (series_max ws) (series_min ws) = series_max ws - series_min ws"
  proof (cases dt)
    case Int64
    with assms(1) have "series_max ws - series_min ws < 2 ^ 63" by (simp add: no_wrap_def)
    with r have "int64_wrap (series_max ws - series_min ws) = series_max ws - series_min ws"
      by (intro int64_wrap_id) simp_all
    with Int64 show ?thesis by (simp add: series_sub_def)
  next
    case Float64
    then show ?thesis by (simp add: series_sub_def)
  qed
qed

lemma normalize_weights_no_wrap:
  assumes "no_wrap dt ws"
  shows "normalize_weights dt ws = normalize_weights Float64 ws"
proof (cases "ws = []")
  case True
  then show ?thesis by (simp add: normalize_weights_def)
next
  case False
  then obtain w where w: "w \<in> set ws" by (cases ws) auto
  have "weight_denominator dt ws = series_max ws - series_min ws + 0.001"
    by (simp only: weight_denominator_def series_sub_no_wrap(2) [OF assms w])
  moreover have "weight_denominator Float64 ws = series_max ws - series_min ws + 0.001"
    by (simp add: weight_denominator_def series_sub_def)
  ultimately have d: "weight_denominator dt ws = weight_denominator Float64 ws"
    by simp
  have n: "series_sub dt v (series_min ws) = series_sub Float64 v (series_min ws)"
    if "v \<in> set ws" for v
  proof -
    have "series_sub Float64 v (series_min ws) = v - series_min ws"
      by (simp add: series_sub_def)
    then show ?thesis
      by (simp only: series_sub_no_wrap(1) [OF assms that])
  qed
  show ?thesis
    unfolding normalize_weights_def d
    by (rule map_cong [OF refl]) (simp only: n)
qed

lemma apply_attraction_no_wrap:
  assumes "select_weights mode = Some col" and "no_wrap dt (map col df)"
  shows "apply_attraction dt df mode strength = apply_attraction Float64 df mode strength"
  by (simp only: apply_attraction_def assms(1) option.case
      normalize_weights_no_wrap [OF assms(2)])

text \<open>The list-and-mask computation without wrap-around, against the index-set sums.\<close>

lemma normalize_weights_nth:
  assumes "i < length df"
  shows "normalize_weights Float64 (map col df) ! i = spec_weight col df i"
proof -
  from assms have ne: "map col df \<noteq> []" by auto
  show ?thesis
    using assms
    by (simp add: normalize_weights_def weight_denominator_def series_sub_def spec_weight_def
        series_min_Min [OF ne] series_max_Max [OF ne])
qed

lemma select_mask_Cons:
  "select_mask (v # vs) (b # m) = (if b then v # select_mask vs m else select_mask vs m)"
  by (simp add: select_mask_def)

lemma select_mask_Nil: "select_mask [] m = []"
  by (simp add: select_mask_def)

lemma sum_list_select_mask:
  assumes "length vs = length m"
  shows "sum_list (select_mask vs m) = (\<Sum>i \<in> {i \<in> {..<length vs}. m ! i}. (vs ! i :: real))"
proof -
  have "sum_list (select_mask vs m) = sum_list (map2 (\<lambda>v b. if b then v else 0) vs m)"
    using assms by (induction vs m rule: list_induct2) (simp_all add: select_mask_Cons select_mask_Nil)
  also have "\<dots> = (\<Sum>i = 0..<length vs. if m ! i then vs ! i else 0)"
    using assms by (simp add: sum_list_sum_nth)
  also have "\<dots> = (\<Sum>i \<in> {i \<in> {..<length vs}. m ! i}. vs ! i)"
    by (simp add: sum.inter_filter [symmetric] atLeast0LessThan)
  finally show ?thesis .
qed

lemma select_mask_map2:
  assumes "length a = length b" and "length b = length m"
  shows "map2 (*) (select_mask a m) (select_mask b m) = select_mask (map2 (*) a b) m"
  using assms
  by (induction a b m rule: list_induct3) (simp_all add: select_mask_Cons select_mask_Nil)

lemma mask_count_pos:
  "0 < length (filter id (high_value_mask W)) \<longleftrightarrow> {i \<in> {..<length W}. W ! i > 0.7} \<noteq> {}"
proof -
  have "0 < length (filter id (high_value_mask W)) \<longleftrightarrow> (\<exists>w \<in> set W. w > 0.7)"
    by (auto simp: high_value_mask_def filter_empty_conv)
  also have "\<dots> \<longleftrightarrow> (\<exists>i < length W. W ! i > 0.7)"
    by (metis in_set_conv_nth)
  finally show ?thesis by auto
qed

lemma center_of_spec:
  "center_of (map pos df) (normalize_weights Float64 (map col df))
       (high_value_mask (normalize_weights Float64 (map col df)))
     = spec_centroid pos col df"
proof -
  define W where "W = normalize_weights Float64 (map col df)"
  define M where "M = high_value_mask W"
  have lenW: "length W = length df" by (simp add: W_def normalize_weights_def)
  have lenM: "length M = length df" by (simp add: M_def high_value_mask_def lenW)
  have A: "{i \<in> {..<length df}. M ! i} = attractor_set col df"
    using lenW by (auto simp: M_def high_value_mask_def attractor_set_def W_def normalize_weights_nth)
  have den: "sum_list (select_mask W M) = (\<Sum>i \<in> attractor_set col df. spec_weight col df i)"
  proof -
    have "sum_list (select_mask W M) = (\<Sum>i \<in> {i \<in> {..<length W}. M ! i}. W ! i)"
      by (rule sum_list_select_mask) (simp add: lenW lenM)
    also have "\<dots> = (\<Sum>i \<in> attractor_set col df. W ! i)"
      by (simp only: lenW A)
    also have "\<dots> = (\<Sum>i \<in> attractor_set col df. spec_weight col df i)"
      by (rule sum.cong) (auto simp: attractor_set_def W_def normalize_weights_nth)
    finally show ?thesis .
  qed
  have num: "sum_list (map2 (*) (select_mask (map pos df) M) (select_mask W M))
               = (\<Sum>i \<in> attractor_set col df. spec_weight col df i * pos (df ! i))"
  proof -
    have "sum_list (map2 (*) (select_mask (map pos df) M) (select_mask W M))
            = sum_list (select_mask (map2 (*) (map pos df) W) M)"
      by (simp add: select_mask_map2 lenW lenM)
    also have "\<dots> = (\<Sum>i \<in> {i \<in> {..<length (map2 (*) (map pos df) W)}. M ! i}.
                          map2 (*) (map pos df) W ! i)"
      by (rule sum_list_select_mask) (simp add: lenW lenM)
    also have "\<dots> = (\<Sum>i \<in> attractor_set col df. map2 (*) (map pos df) W ! i)"
      using A by (simp add: lenW)
    also have "\<dots> = (\<Sum>i \<in> attractor_set col df. spec_weight col df i * pos (df ! i))"
      by (rule sum.cong) (auto simp: attractor_set_def W_def normalize_weights_nth lenW [unfolded W_def])
    finally show ?thesis .
  qed
  show ?thesis
    unfolding center_of_def spec_centroid_def W_def [symmetric] M_def [symmetric]
    by (simp only: num den)
qed

lemma attractors_nonempty_iff:
  "0 < length (filter id (high_value_mask (normalize_weights Float64 (map col df))))
     \<longleftrightarrow> attractor_set col df \<noteq> {}"
proof -
  have len: "length (normalize_weights Float64 (map col df)) = length df"
    by (simp add: normalize_weights_def)
  have "{i \<in> {..<length (normalize_weights Float64 (map col df))}.
          normalize_weights Float64 (map col df) ! i > 0.7}
          = attractor_set col df"
    unfolding len attractor_set_def by (auto simp: normalize_weights_nth)
  then show ?thesis
    by (simp only: mask_count_pos)
qed

lemma apply_attraction_float_pull:
  assumes "select_weights mode = Some col"
  shows "(attractor_set col df \<noteq> {} \<longrightarrow>
            (\<forall>i < length df.
               vx (apply_attraction Float64 df mode strength ! i)
                 = vx (df ! i) + (spec_centroid xpos col df - xpos (df ! i)) * strength
                                   * (1 - spec_weight col df i)
             \<and> vy (apply_attraction Float64 df mode strength ! i)
                 = vy (df ! i) + (spec_centroid ypos col df - ypos (df ! i)) * strength
                                   * (1 - spec_weight col df i)))
       \<and> (attractor_set col df = {} \<longrightarrow> apply_attraction Float64 df mode strength = df)"
proof -
  have len: "length (normalize_weights Float64 (map col df)) = length df"
    by (simp add: normalize_weights_def)
  show ?thesis
    unfolding apply_attraction_def assms option.case Let_def
      attractors_nonempty_iff center_of_spec
    by (simp add: len normalize_weights_nth)
qed

text \<open>
  C1, as stated, holds of every collection.  On an int64 metric column whose values
  lie \<open>2 ^ 63\<close> or more apart the two subtractions wrap around.  With the market caps
  \<open>- 2 ^ 62\<close>, \<open>2 ^ 62\<close> and \<open>2 ^ 61\<close> and mode \<^verbatim>\<open>size\<close>, the weights computed
  are 0, a value above 1 and a negative value, so only the second row passes the
  mask; the min-max normalized weights are 0, about 1 and about 0.75, so the attractor
  set of the claim has two rows and its centroid is at \<open>x = 100 / 7\<close>.  With strength
  1 the first row, at rest at \<open>x = 0\<close>, receives the horizontal velocity 10, where the
  claim has \<open>100 / 7\<close>.
\<close>

theorem apply_attraction_int64_wrap_counterexample:
  "attractor_set market_cap wrap_frame \<noteq> {}
   \<and> vx (apply_attraction Int64 wrap_frame ''size'' 1 ! 0)
       \<noteq> vx (wrap_frame ! 0)
           + (spec_centroid xpos market_cap wrap_frame - xpos (wrap_frame ! 0)) * 1
               * (1 - spec_weight market_cap wrap_frame 0)
   \<and> vx (apply_attraction Int64 wrap_frame ''size'' 1 ! 0) = 10
   \<and> spec_centroid xpos market_cap wrap_frame = 100 / 7
   \<and> spec_weight market_cap wrap_frame 0 = 0"
proof -
  have caps: "map market_cap wrap_frame
                = [- 4611686018427387904, 4611686018427387904, 2305843009213693952]"
    by (simp add: wrap_frame_def sample_stock_def)
  have xs: "map xpos wrap_frame = [0, 10, 20]"
    by (simp add: wrap_frame_def sample_stock_def)
  have row0: "vx (wrap_frame ! 0) = 0" "xpos (wrap_frame ! 0) = 0"
    by (simp_all add: wrap_frame_def sample_stock_def)
  have len: "length wrap_frame = 3"
    by (simp add: wrap_frame_def)
  have sw: "select_weights ''size'' = Some market_cap"
    by (simp add: select_weights_def)
  have fw: "normalize_weights Float64 (map market_cap wrap_frame)
              = [0, 9223372036854775808000 / 9223372036854775808001,
                 6917529027641081856000 / 9223372036854775808001]"
    unfolding caps by (simp add: normalize_weights_def weight_denominator_def series_sub_def)
  have iw: "normalize_weights Int64 (map market_cap wrap_frame)
              = [0, 9223372036854775808000 / 9223372036854775807999,
                 - (6917529027641081856000 / 9223372036854775807999)]"
    unfolding caps
    by (simp add: normalize_weights_def weight_denominator_def series_sub_def int64_wrap_def)
  have ne: "attractor_set market_cap wrap_frame \<noteq> {}"
    unfolding attractors_nonempty_iff [symmetric] fw by (simp add: high_value_mask_def)
  have w0: "spec_weight market_cap wrap_frame 0 = 0"
    using normalize_weights_nth [of 0 wrap_frame market_cap] by (simp add: len fw)
  have cen: "spec_centroid xpos market_cap wrap_frame = 100 / 7"
    unfolding center_of_spec [symmetric] fw xs
    by (simp add: center_of_def high_value_mask_def select_mask_def)
  have code: "vx (apply_attraction Int64 wrap_frame ''size'' 1 ! 0) = 10"
    unfolding apply_attraction_def sw option.case Let_def iw xs
    by (simp add: center_of_def high_value_mask_def select_mask_def wrap_frame_def sample_stock_def)
  show ?thesis
    using ne code cen w0 by (simp add: row0)
qed

text \<open>
  C1, amended.  For every DataFrame and every recognized mode whose metric column is
  a float column, or an int64 column whose largest and smallest value differ by less
  than \<open>2 ^ 63\<close>: when the attractor set is non-empty, \<^verbatim>\<open>apply_attraction\<close> adds to
  the velocity of every row exactly \<open>(centroid - position) * strength * (1 - weight)\<close>,
  componentwise, where the centroid is the weight-averaged position over the
  attractor set only; when the attractor set is empty, the DataFrame, and so every
  velocity, is unchanged.
\<close>

theorem apply_attraction_pull:
  assumes "select_weights mode = Some col" and "no_wrap dt (map col df)"
  shows "(attractor_set col df \<noteq> {} \<longrightarrow>
            (\<forall>i < length df.
               vx (apply_attraction dt df mode strength ! i)
                 = vx (df ! i) + (spec_centroid xpos col df - xpos (df ! i)) * strength
                                   * (1 - spec_weight col df i)
             \<and> vy (apply_attraction dt df mode strength ! i)
                 = vy (df ! i) + (spec_centroid ypos col df - ypos (df ! i)) * strength
                                   * (1 - spec_weight col df i)))
       \<and> (attractor_set col df = {} \<longrightarrow> apply_attraction dt df mode strength = df)"
  using apply_attraction_float_pull [OF assms(1), of df strength]
  by (simp only: apply_attraction_no_wrap [OF assms])

theorem apply_attraction_pull_witness:
  "select_weights ''value'' = Some rule_of_40
   \<and> no_wrap Int64 (map rule_of_40 sample_frame)
   \<and> attractor_set rule_of_40 sample_frame \<noteq> {}
   \<and> (0::nat) < length sample_frame
   \<and> vx (apply_attraction Int64 sample_frame ''value'' 0.1 ! 0)
        = 1 + (spec_centroid xpos rule_of_40 sample_frame - 20) * 0.1 * (1 - 40000 / 65001)
   \<and> vy (apply_attraction Int64 sample_frame ''value'' 0.1 ! 0)
        = 1 + (spec_centroid ypos rule_of_40 sample_frame - 30) * 0.1 * (1 - 40000 / 65001)"
proof -
  have sw: "select_weights ''value'' = Some rule_of_40"
    by (simp add: select_weights_def)
  have nw: "no_wrap Int64 (map rule_of_40 sample_frame)"
    by (simp add: no_wrap_def sample_frame_def sample_stock_sel)
  have w0: "spec_weight rule_of_40 sample_frame 0 = 40000 / 65001"
    by (simp add: spec_weight_def sample_frame_def sample_stock_sel)
  have w2: "spec_weight rule_of_40 sample_frame 2 = 65000 / 65001"
    by (simp add: spec_weight_def sample_frame_def sample_stock_sel)
  have "2 \<in> attractor_set rule_of_40 sample_frame"
    unfolding attractor_set_def using w2 by (simp add: sample_frame_def)
  then have ne: "attractor_set rule_of_40 sample_frame \<noteq> {}"
    by blast
  have len: "(0::nat) < length sample_frame"
    by (simp add: sample_frame_def)
  have r0: "vx (sample_frame ! 0) = 1" "vy (sample_frame ! 0) = 1"
    "xpos (sample_frame ! 0) = 20" "ypos (sample_frame ! 0) = 30"
    by (simp_all add: sample_frame_def sample_stock_sel)
  show ?thesis
    using apply_attraction_pull [OF sw nw, of "0.1"] sw nw ne len
    by (simp add: w0 r0)
qed

text \<open>
  The two divisions of \<^verbatim>\<open>apply_attraction\<close>: without wrap-around the weight range
  plus epsilon is positive, and on every column the sum of the selected weights is
  positive when the mask selects a row.
\<close>

lemma sum_list_positive:
  "xs \<noteq> [] \<Longrightarrow> \<forall>x \<in> set xs. (0::real) < x \<Longrightarrow> 0 < sum_list xs"
proof (induction xs)
  case Nil
  then show ?case by simp
next
  case (Cons x xs)
  show ?case
  proof (cases "xs = []")
    case True
    with Cons.prems show ?thesis by simp
  next
    case False
    with Cons have "0 < sum_list xs" by simp
    moreover from Cons.prems have "0 < x" by simp
    ultimately show ?thesis by simp
  qed
qed

lemma weight_denominator_pos:
  assumes "no_wrap dt ws"
  shows "0 < weight_denominator dt ws"
proof (cases "ws = []")
  case True
  then show ?thesis
    by (cases dt) (simp_all add: weight_denominator_def series_sub_def int64_wrap_id)
next
  case False
  then obtain w where w: "w \<in> set ws" by (cases ws) auto
  show ?thesis
    using series_bounds [of ws]
    by (simp add: weight_denominator_def series_sub_no_wrap(2) [OF assms w])
qed

lemma center_denominator_pos:
  assumes "0 < length (filter id (high_value_mask W))"
  shows "0 < sum_list (select_mask W (high_value_mask W))"
proof -
  have sel: "select_mask W (high_value_mask W) = filter (\<lambda>w. w > 0.7) W"
    unfolding high_value_mask_def
    by (induction W) (simp_all add: select_mask_Cons select_mask_Nil)
  have cnt: "length (filter id (high_value_mask W)) = length (filter (\<lambda>w. w > 0.7) W)"
    unfolding high_value_mask_def by (induction W) simp_all
  from assms cnt have ne: "filter (\<lambda>w. w > 0.7) W \<noteq> []" by auto
  have "\<forall>w \<in> set (filter (\<lambda>w. w > 0.7) W). 0 < w" by auto
  with ne have "0 < sum_list (filter (\<lambda>w. w > 0.7) W)"
    by (rule sum_list_positive)
  then show ?thesis by (simp only: sel)
qed

lemma series_const:
  assumes "\<forall>w \<in> set ws. w = c" and "ws \<noteq> []"
  shows "series_min ws = c" and "series_max ws = c"
proof -
  from assms have "set ws = {c}" by (cases ws) auto
  then show "series_min ws = c" and "series_max ws = c"
    by (simp_all add: series_min_Min [OF assms(2)] series_max_Max [OF assms(2)])
qed

text \<open>
  C7.  For every DataFrame, of either dtype of the metric column, in which all rows
  have the same value of the selected metric: the denominator of the weight
  normalization is not zero; every normalized weight is the same constant, which is
  0; a constant weight \<open>k\<close> gives the mask that is \<open>k > 0.7\<close> on every row, so the
  attractor set is full or empty according to whether the constant exceeds 0.7, and
  with the constant 0 it is empty; the centroid division is then not executed and
  the DataFrame is returned unchanged.
\<close>

theorem equal_weights_no_attractors:
  assumes "select_weights mode = Some col" and "\<forall>s \<in> set df. col s = c"
  shows "weight_denominator dt (map col df) \<noteq> 0
       \<and> normalize_weights dt (map col df) = replicate (length df) 0
       \<and> (\<forall>k. high_value_mask (replicate (length df) k) = replicate (length df) (k > 0.7))
       \<and> high_value_mask (normalize_weights dt (map col df)) = replicate (length df) False
       \<and> apply_attraction dt df mode strength = df"
proof -
  have allc: "\<forall>w \<in> set (map col df). w = c" using assms(2) by auto
  have nw: "no_wrap dt (map col df)"
  proof (cases "df = []")
    case True
    then show ?thesis by (simp add: no_wrap_def)
  next
    case False
    then have ne: "map col df \<noteq> []" by simp
    show ?thesis
      by (simp add: no_wrap_def series_const [OF allc ne])
  qed
  have d: "weight_denominator dt (map col df) \<noteq> 0"
    using weight_denominator_pos [OF nw] by simp
  have w: "normalize_weights dt (map col df) = replicate (length df) 0"
  proof (cases "df = []")
    case True
    then show ?thesis by (simp add: normalize_weights_def)
  next
    case False
    then have ne: "map col df \<noteq> []" by simp
    have m: "series_min (map col df) = c" by (rule series_const(1) [OF allc ne])
    have "map (\<lambda>w. (w - c) / weight_denominator Float64 (map col df)) (map col df)
            = replicate (length df) 0"
      using assms(2) by (simp add: map_replicate_const [symmetric] comp_def cong: map_cong)
    then have "normalize_weights Float64 (map col df) = replicate (length df) 0"
      by (simp add: normalize_weights_def series_sub_def m)
    then show ?thesis by (simp only: normalize_weights_no_wrap [OF nw])
  qed
  have mk: "\<forall>k. high_value_mask (replicate (length df) k) = replicate (length df) (k > 0.7)"
    by (simp add: high_value_mask_def)
  have h: "high_value_mask (normalize_weights dt (map col df)) = replicate (length df) False"
    by (simp add: w high_value_mask_def)
  have a: "apply_attraction dt df mode strength = df"
    unfolding apply_attraction_def assms(1) option.case Let_def h
    by simp
  show ?thesis using d w mk h a by blast
qed

theorem equal_weights_no_attractors_witness:
  "select_weights ''size'' = Some market_cap
   \<and> map market_cap sample_frame = [0, 0, 0]
   \<and> weight_denominator Int64 (map market_cap sample_frame) \<noteq> 0
   \<and> normalize_weights Int64 (map market_cap sample_frame) = [0, 0, 0]
   \<and> high_value_mask (normalize_weights Int64 (map market_cap sample_frame)) = [False, False, False]
   \<and> apply_attraction Int64 sample_frame ''size'' 0.03 = sample_frame"
proof -
  have sw: "select_weights ''size'' = Some market_cap"
    by (simp add: select_weights_def)
  have eq: "\<forall>s \<in> set sample_frame. market_cap s = 0"
    by (simp add: sample_frame_def sample_stock_def)
  have len: "length sample_frame = 3"
    by (simp add: sample_frame_def)
  have caps: "map market_cap sample_frame = [0, 0, 0]"
    by (simp add: sample_frame_def sample_stock_def)
  show ?thesis
    using equal_weights_no_attractors [OF sw eq, of Int64 "0.03"] sw caps
    by (simp add: len numeral_3_eq_3)
qed

section \<open>Properties of sizes and pulse speeds\<close>

text \<open>
  What holds of the two collection-relative columns: the pulse speeds are computed
  for every DataFrame, with 1.0 on a non-positive volume; the sizes are computed
  when every market cap of the collection is above \<open>- 1\<close>, with 5 on a
  non-positive market cap and a value in \<open>[10, 60]\<close> on a positive one.
\<close>

lemma get_bubble_size_nonpos: "cap \<le> 0 \<Longrightarrow> get_bubble_size cap all_caps = Inr 5"
  by (simp add: get_bubble_size_def)

lemma get_pulse_speed_nonpos: "vol \<le> 0 \<Longrightarrow> get_pulse_speed vol all_volumes = Inr 1"
  by (simp add: get_pulse_speed_def)

lemma get_pulse_speed_total: "\<exists>v. get_pulse_speed vol all_volumes = Inr v"
  by (cases all_volumes) (simp_all add: get_pulse_speed_def bind_err_def)

lemma apply_series_total:
  assumes "\<forall>v \<in> set vs. \<exists>r. f v = Inr r \<and> P v r"
  shows "\<exists>rs. apply_series f vs = Inr rs \<and> length rs = length vs
              \<and> (\<forall>i < length vs. P (vs ! i) (rs ! i))"
  using assms
proof (induction vs)
  case Nil
  then show ?case by simp
next
  case (Cons v vs)
  from Cons.prems obtain r where r: "f v = Inr r" "P v r" by auto
  from Cons obtain rs where rs: "apply_series f vs = Inr rs" "length rs = length vs"
    "\<forall>i < length vs. P (vs ! i) (rs ! i)" by auto
  have "apply_series f (v # vs) = Inr (r # rs)"
    by (simp add: r(1) rs(1) bind_err_def)
  moreover have "\<forall>i < length (v # vs). P ((v # vs) ! i) ((r # rs) ! i)"
    using r(2) rs(3) by (auto simp: nth_Cons split: nat.splits)
  ultimately show ?case using rs(2) by simp
qed

lemma pulse_speed_column_total:
  "\<exists>rs. pulse_speed_column df = Inr rs \<and> length rs = length df
        \<and> (\<forall>i < length df. volume (df ! i) \<le> 0 \<longrightarrow> rs ! i = 1)"
proof -
  have "\<forall>v \<in> set (map volume df).
          \<exists>r. get_pulse_speed v (map volume df) = Inr r \<and> (v \<le> 0 \<longrightarrow> r = 1)"
    using get_pulse_speed_total get_pulse_speed_nonpos by (metis Inr_inject)
  from apply_series_total [OF this] show ?thesis
    by (simp add: pulse_speed_column_def Let_def)
qed

lemma normalize_range_bounds:
  assumes "lo \<le> v" and "v \<le> hi" and "tmin \<le> tmax"
  shows "tmin \<le> normalize_range v lo hi tmin tmax \<and> normalize_range v lo hi tmin tmax \<le> tmax"
proof (cases "hi = lo")
  case True
  then show ?thesis using assms(3) by (simp add: normalize_range_def)
next
  case False
  with assms have pos: "0 < hi - lo" by simp
  define t where "t = (v - lo) / (hi - lo)"
  have t0: "0 \<le> t" using assms(1) pos by (simp add: t_def)
  have t1: "t \<le> 1" using assms(2) pos by (simp add: t_def)
  have d: "0 \<le> tmax - tmin" using assms(3) by simp
  have a: "0 \<le> t * (tmax - tmin)" using t0 d by simp
  have b: "t * (tmax - tmin) \<le> tmax - tmin" using mult_right_mono [OF t1 d] by simp
  have "normalize_range v lo hi tmin tmax = tmin + t * (tmax - tmin)"
    using False by (simp add: normalize_range_def t_def)
  with a b show ?thesis by simp
qed

lemma py_min_Min: "vs \<noteq> [] \<Longrightarrow> py_min vs = Inr (Min (set vs))"
  by (cases vs) (simp_all add: Min.set_eq_fold [symmetric])

lemma py_max_Max: "vs \<noteq> [] \<Longrightarrow> py_max vs = Inr (Max (set vs))"
  by (cases vs) (simp_all add: Max.set_eq_fold [symmetric])

lemma get_bubble_size_in_range:
  assumes "0 < cap" and "cap \<in> set all_caps" and "\<forall>c \<in> set all_caps. - 1 < c"
  shows "\<exists>r. get_bubble_size cap all_caps = Inr r \<and> 10 \<le> r \<and> r \<le> 60"
proof -
  from assms(2) have ne: "all_caps \<noteq> []" by auto
  define lo where "lo = Min (set all_caps)"
  define hi where "hi = Max (set all_caps)"
  have lo_mem: "lo \<in> set all_caps" unfolding lo_def using ne Min_in [of "set all_caps"] by simp
  have lo_le: "lo \<le> cap" unfolding lo_def using assms(2) by simp
  have hi_ge: "cap \<le> hi" unfolding hi_def using assms(2) by simp
  have lo_pos: "0 < lo + 1" using lo_mem assms(3) by fastforce
  have hi_pos: "0 < hi + 1" using hi_ge assms(1) by simp
  have eq: "get_bubble_size cap all_caps
              = Inr (normalize_range (log 10 (cap + 1)) (log 10 (lo + 1)) (log 10 (hi + 1)) 10 60)"
    using assms(1) ne lo_pos hi_pos
    by (simp add: get_bubble_size_def bind_err_def math_log10_def py_min_Min py_max_Max
        lo_def [symmetric] hi_def [symmetric])
  have l1: "log 10 (lo + 1) \<le> log 10 (cap + 1)"
    using lo_le lo_pos assms(1) by simp
  have l2: "log 10 (cap + 1) \<le> log 10 (hi + 1)"
    using hi_ge hi_pos assms(1) by simp
  from normalize_range_bounds [OF l1 l2, of 10 60] eq show ?thesis by simp
qed

lemma size_column_total:
  assumes "\<forall>s \<in> set df. - 1 < market_cap s"
  shows "\<exists>rs. size_column df = Inr rs \<and> length rs = length df
        \<and> (\<forall>i < length df. (market_cap (df ! i) \<le> 0 \<longrightarrow> rs ! i = 5)
                           \<and> (0 < market_cap (df ! i) \<longrightarrow> 10 \<le> rs ! i \<and> rs ! i \<le> 60))"
proof -
  have "\<forall>c \<in> set (map market_cap df).
          \<exists>r. get_bubble_size c (map market_cap df) = Inr r
             \<and> ((c \<le> 0 \<longrightarrow> r = 5) \<and> (0 < c \<longrightarrow> 10 \<le> r \<and> r \<le> 60))"
  proof
    fix c assume c: "c \<in> set (map market_cap df)"
    show "\<exists>r. get_bubble_size c (map market_cap df) = Inr r
             \<and> ((c \<le> 0 \<longrightarrow> r = 5) \<and> (0 < c \<longrightarrow> 10 \<le> r \<and> r \<le> 60))"
    proof (cases "c \<le> 0")
      case True
      then show ?thesis by (simp add: get_bubble_size_nonpos)
    next
      case False
      then have "0 < c" by simp
      moreover have "\<forall>c \<in> set (map market_cap df). - 1 < c" using assms by auto
      ultimately obtain r where "get_bubble_size c (map market_cap df) = Inr r" "10 \<le> r" "r \<le> 60"
        using get_bubble_size_in_range [OF _ c] by blast
      with False show ?thesis by simp
    qed
  qed
  from apply_series_total [OF this] show ?thesis
    by (simp add: size_column_def Let_def)
qed

text \<open>
  C4 says that sizes are computed without an error for every collection, negative
  market caps included.  \<^verbatim>\<open>get_bubble_size\<close> guards the row's own market cap, but
  for a row with a positive market cap it takes \<^verbatim>\<open>math.log10(min(all_market_caps) + 1)\<close>
  unguarded: with market caps \<open>- 5\<close> and 100 in one collection, the second row
  raises \<^verbatim>\<open>ValueError\<close>, and the whole column computation with it.
\<close>

theorem size_column_negative_cap_raises:
  "size_column [(sample_stock ''AAPL'' 65 20 30 1 1 0.55)\<lparr>market_cap := - 5\<rparr>,
                (sample_stock ''TSLA'' 25 50 60 (- 2) 0 0.95)\<lparr>market_cap := 100\<rparr>]
     = Inl ValueError"
  by (simp add: size_column_def get_bubble_size_def bind_err_def math_log10_def)

end
